theory Spec2Isabelle
  imports Complex_Main
begin

section \<open>JavaScript numbers\<close>

text \<open>
  The viewer computes with JavaScript numbers, that is IEEE 754 doubles. A finite number is
  the real it denotes; the result of every arithmetic operation is the exact result rounded
  to the nearest double, ties to even, and an infinity when that is out of range. The three
  special values have the results the language gives them. Signed zeros are not
  distinguished: a zero divisor counts as \<open>+0\<close>.
\<close>

datatype jsnum = Num real | PosInf | NegInf | NaN

text \<open>
  The exponent of the binade of \<open>x\<close> (all subnormal numbers share that of the smallest
  normal ones) and the distance between neighbouring doubles there.
\<close>

definition expo :: "real \<Rightarrow> int" where
  "expo x = max \<lfloor>log 2 \<bar>x\<bar>\<rfloor> (- 1022)"

definition ulp :: "real \<Rightarrow> real" where
  "ulp x = 2 powr (of_int (expo x) - 52)"

text \<open>The nearest integer, the even one of two that are equally near.\<close>

definition rne :: "real \<Rightarrow> int" where
  "rne a =
     (let n = \<lfloor>a\<rfloor>; r = a - of_int n
      in if r < 1 / 2 then n
         else if 1 / 2 < r then n + 1
         else if even n then n else n + 1)"

text \<open>The nearest multiple of \<open>ulp x\<close>: the double nearest to \<open>x\<close>, were exponents unbounded.\<close>

definition roundD :: "real \<Rightarrow> real" where
  "roundD x = sgn x * of_int (rne (\<bar>x\<bar> / ulp x)) * ulp x"

text \<open>
  The largest double is \<open>2 ^ 1024 - 2 ^ 971\<close>. A real at least half a unit in the last
  place above it rounds to infinity.
\<close>

definition overflowAt :: real where
  "overflowAt = 2 ^ 1024 - 2 ^ 970"

definition fl :: "real \<Rightarrow> jsnum" where
  "fl x = (if overflowAt \<le> x then PosInf
           else if x \<le> - overflowAt then NegInf
           else Num (roundD x))"

text \<open>A decimal literal of the source that is not itself a double, and \<open>Math.PI\<close>.\<close>

definition lit :: "real \<Rightarrow> jsnum" where
  "lit r = fl r"

definition MathPI :: jsnum where
  "MathPI = fl pi"


fun jneg :: "jsnum \<Rightarrow> jsnum" where
  "jneg (Num a) = Num (- a)"
| "jneg PosInf = NegInf"
| "jneg NegInf = PosInf"
| "jneg NaN = NaN"

fun jadd :: "jsnum \<Rightarrow> jsnum \<Rightarrow> jsnum" where
  "jadd (Num a) (Num b) = fl (a + b)"
| "jadd NaN _ = NaN"
| "jadd _ NaN = NaN"
| "jadd PosInf NegInf = NaN"
| "jadd NegInf PosInf = NaN"
| "jadd PosInf _ = PosInf"
| "jadd NegInf _ = NegInf"
| "jadd _ PosInf = PosInf"
| "jadd _ NegInf = NegInf"

text \<open>An infinity times or divided by a finite number keeps or flips its sign.\<close>

definition scaleInf :: "jsnum \<Rightarrow> real \<Rightarrow> jsnum" where
  "scaleInf i b = (if b = 0 then NaN else if 0 < b then i else jneg i)"

fun jmul :: "jsnum \<Rightarrow> jsnum \<Rightarrow> jsnum" where
  "jmul (Num a) (Num b) = fl (a * b)"
| "jmul NaN _ = NaN"
| "jmul _ NaN = NaN"
| "jmul PosInf (Num b) = scaleInf PosInf b"
| "jmul NegInf (Num b) = scaleInf NegInf b"
| "jmul (Num a) PosInf = scaleInf PosInf a"
| "jmul (Num a) NegInf = scaleInf NegInf a"
| "jmul PosInf PosInf = PosInf"
| "jmul NegInf NegInf = PosInf"
| "jmul PosInf NegInf = NegInf"
| "jmul NegInf PosInf = NegInf"

fun jdiv :: "jsnum \<Rightarrow> jsnum \<Rightarrow> jsnum" where
  "jdiv (Num a) (Num b) =
     (if b \<noteq> 0 then fl (a / b)
      else if a = 0 then NaN
      else if 0 < a then PosInf else NegInf)"
| "jdiv NaN _ = NaN"
| "jdiv _ NaN = NaN"
| "jdiv PosInf (Num b) = (if 0 \<le> b then PosInf else NegInf)"
| "jdiv NegInf (Num b) = (if 0 \<le> b then NegInf else PosInf)"
| "jdiv (Num a) PosInf = Num 0"
| "jdiv (Num a) NegInf = Num 0"
| "jdiv _ _ = NaN"

text \<open>\<open>Math.max\<close> and \<open>Math.min\<close> of two numbers: \<open>NaN\<close> if either is \<open>NaN\<close>.\<close>

fun jmax :: "jsnum \<Rightarrow> jsnum \<Rightarrow> jsnum" where
  "jmax (Num a) (Num b) = Num (max a b)"
| "jmax NaN _ = NaN"
| "jmax _ NaN = NaN"
| "jmax PosInf _ = PosInf"
| "jmax _ PosInf = PosInf"
| "jmax NegInf b = b"
| "jmax a NegInf = a"

fun jmin :: "jsnum \<Rightarrow> jsnum \<Rightarrow> jsnum" where
  "jmin (Num a) (Num b) = Num (min a b)"
| "jmin NaN _ = NaN"
| "jmin _ NaN = NaN"
| "jmin NegInf _ = NegInf"
| "jmin _ NegInf = NegInf"
| "jmin PosInf b = b"
| "jmin a PosInf = a"

text \<open>\<open>Math.max(a, b, c)\<close>.\<close>

definition jmax3 :: "jsnum \<Rightarrow> jsnum \<Rightarrow> jsnum \<Rightarrow> jsnum" where
  "jmax3 a b c = jmax (jmax a b) c"

text \<open>
  \<open>Math.tan\<close>: the double nearest to the tangent. The language leaves the last digit to
  the implementation; no statement below depends on it. No double is a pole of the tangent.
\<close>

fun jtan :: "jsnum \<Rightarrow> jsnum" where
  "jtan (Num a) = fl (tan a)"
| "jtan _ = NaN"

text \<open>The comparison \<open>a <= b\<close>: false whenever an operand is \<open>NaN\<close>.\<close>

fun jle :: "jsnum \<Rightarrow> jsnum \<Rightarrow> bool" where
  "jle (Num a) (Num b) = (a \<le> b)"
| "jle NaN _ = False"
| "jle _ NaN = False"
| "jle NegInf _ = True"
| "jle _ PosInf = True"
| "jle _ _ = False"

text \<open>Truthiness of a number: \<open>0\<close> and \<open>NaN\<close> are falsy.\<close>

fun truthy :: "jsnum \<Rightarrow> bool" where
  "truthy (Num a) = (a \<noteq> 0)"
| "truthy NaN = False"
| "truthy _ = True"

record vec3 =
  vx :: jsnum
  vy :: jsnum
  vz :: jsnum

definition Vector3 :: "jsnum \<Rightarrow> jsnum \<Rightarrow> jsnum \<Rightarrow> vec3" where
  "Vector3 a b c = \<lparr>vx = a, vy = b, vz = c\<rparr>"



section \<open>Materials and the scene graph\<close>

text \<open>
  Property values the viewer reads from the \<open>THREE\<close> namespace and writes into textures.
  Reading a property that an object does not have gives \<open>Undefined\<close>.
\<close>

datatype jsval = Undefined | BoolV bool | NumV int | StrV string

text \<open>
  The \<open>THREE\<close> namespace object of the three.js build that the page loads, as far as the
  viewer reads constants from it: \<open>T ''sRGBEncoding''\<close> is \<open>THREE.sRGBEncoding\<close>.
  Property names are case-sensitive.
\<close>

type_synonym three = "string \<Rightarrow> jsval"

text \<open>
  A texture. \<open>colorSpace\<close> and \<open>encoding\<close> are \<open>None\<close> when the object has no such
  property (\<open>'colorSpace' in tex\<close> is false) and \<open>Some v\<close> when it has it, with value \<open>v\<close>.
\<close>

record texture =
  colorSpace :: "jsval option"
  encoding :: "jsval option"
  flipY :: jsval

text \<open>A material: each slot is \<open>None\<close> when falsy, else the texture object.\<close>

record material =
  map_slot :: "texture option"
  emissiveMap :: "texture option"
  lightMap :: "texture option"
  needsUpdate :: jsval

text \<open>\<open>n.material\<close>: falsy, a single material, or an array of materials.\<close>

datatype matfield = NoMaterial | Single material | Multi "material list"

text \<open>
  A node of the scene graph, with what the viewer's own code reads of it. Geometry is read
  by three.js only (the bounding box), and is not part of the model.
\<close>

datatype node = Node (isMesh: bool) (material_of: matfield) (children: "node list")

text \<open>The body of \<open>if (mat.map) { ... }\<close>, lines 150--156.\<close>

definition adjustMap :: "three \<Rightarrow> texture \<Rightarrow> texture" where
  "adjustMap T t =
     (let t1 = (if colorSpace t \<noteq> None then t\<lparr>colorSpace := Some (T ''SRGBColorSpace'')\<rparr>
                else if encoding t \<noteq> None then t\<lparr>encoding := Some (T ''sRGBEncoding'')\<rparr>
                else t)
      in t1\<lparr>flipY := BoolV False\<rparr>)"

text \<open>The bodies of the emissive-map and light-map branches, lines 159--163 and 166--170.\<close>

definition adjustEmissive :: "three \<Rightarrow> texture \<Rightarrow> texture" where
  "adjustEmissive T t =
     (if colorSpace t \<noteq> None then t\<lparr>colorSpace := Some (T ''SRGBColorSpace'')\<rparr>
      else if encoding t \<noteq> None then t\<lparr>encoding := Some (T ''SRGBEncoding'')\<rparr>
      else t)"

definition adjustLight :: "three \<Rightarrow> texture \<Rightarrow> texture" where
  "adjustLight T t =
     (if colorSpace t \<noteq> None then t\<lparr>colorSpace := Some (T ''SRGBColorSpace'')\<rparr>
      else if encoding t \<noteq> None then t\<lparr>encoding := Some (T ''SRGBEncoding'')\<rparr>
      else t)"

definition adjustMaterial :: "three \<Rightarrow> material \<Rightarrow> material" where
  "adjustMaterial T mat =
     (let m1 = (case map_slot mat of None \<Rightarrow> mat
                | Some t \<Rightarrow> mat\<lparr>map_slot := Some (adjustMap T t)\<rparr>);
          m2 = (case emissiveMap m1 of None \<Rightarrow> m1
                | Some t \<Rightarrow> m1\<lparr>emissiveMap := Some (adjustEmissive T t)\<rparr>);
          m3 = (case lightMap m2 of None \<Rightarrow> m2
                | Some t \<Rightarrow> m2\<lparr>lightMap := Some (adjustLight T t)\<rparr>)
      in m3\<lparr>needsUpdate := BoolV True\<rparr>)"

text \<open>The callback of \<open>model.traverse\<close>, lines 118--124, on the material of one node.\<close>

fun adjustNode :: "three \<Rightarrow> bool \<Rightarrow> matfield \<Rightarrow> matfield" where
  "adjustNode T False m = m"
| "adjustNode T True NoMaterial = NoMaterial"
| "adjustNode T True (Multi ms) = Multi (map (adjustMaterial T) ms)"
| "adjustNode T True (Single m) = Single (adjustMaterial T m)"

text \<open>\<open>model.traverse(callback)\<close>: the node itself, then every descendant.\<close>

fun traverse :: "three \<Rightarrow> node \<Rightarrow> node" where
  "traverse T (Node mesh m cs) = Node mesh (adjustNode T mesh m) (map (traverse T) cs)"

text \<open>
  The constants of a three.js release before \<open>colorSpace\<close> replaced \<open>encoding\<close>:
  \<open>sRGBEncoding = 3001\<close>, \<open>LinearEncoding = 3000\<close>, and nothing named \<open>SRGBEncoding\<close>.
\<close>

definition THREE_legacy :: three where
  "THREE_legacy k =
     (if k = ''sRGBEncoding'' then NumV 3001
      else if k = ''LinearEncoding'' then NumV 3000
      else Undefined)"


section \<open>The viewer's state\<close>

text \<open>
  \<open>Vector3\<close> objects live in a store: \<open>copy\<close> writes into an existing object,
  \<open>clone\<close> and \<open>new\<close> take the next free address. The camera's position and the orbit
  target are such objects, and so are the two vectors of the saved initial state.
\<close>

type_synonym addr = nat

record camera_obj =
  position :: addr
  fov :: jsnum
  aspect :: jsnum
  near :: jsnum
  far :: jsnum
  projection :: "jsnum \<times> jsnum \<times> jsnum \<times> jsnum"

text \<open>
  \<open>camera.updateProjectionMatrix()\<close> (three.js) rebuilds the projection from the four
  parameters; the model records the parameters it was built from.
\<close>

definition updateProjectionMatrix :: "camera_obj \<Rightarrow> camera_obj" where
  "updateProjectionMatrix cam = cam\<lparr>projection := (fov cam, aspect cam, near cam, far cam)\<rparr>"

text \<open>
  The orbit controls (three.js): \<open>object\<close> is the position vector of the camera they
  steer, \<open>target\<close> their own target vector, \<open>internal\<close> whatever else they keep
  (pending rotation, zoom and pan).
\<close>

record 'c controls_obj =
  object :: addr
  target :: addr
  enableDamping :: bool
  dampingFactor :: jsnum
  internal :: 'c

record renderer_obj =
  pixelRatio :: jsnum
  width :: jsnum
  height :: jsnum
  frames :: nat

record loading_el =
  textContent :: string
  display :: string
  background :: string

datatype error = TypeError

record 'c viewer =
  heap :: "addr \<Rightarrow> vec3"
  nextAddr :: addr
  camera :: "camera_obj option"
  scene :: "string list option"
  renderer :: "renderer_obj option"
  controls :: "'c controls_obj option"
  modelGroup :: "node list"
  initialCameraState :: "(addr \<times> addr) option"
  loadingEl :: "loading_el option"
  console :: "string list"
  alerts :: "string list"
  clientWidth :: jsnum
  clientHeight :: jsnum
  loadStarted :: bool
  dracoSet :: bool
  listeners :: "string list"

text \<open>
  What the page offers at startup: the three places an \<open>OrbitControls\<close> class is looked
  for, the two for \<open>GLTFLoader\<close> and the three for \<open>DRACOLoader\<close>,
  \<open>window.devicePixelRatio\<close> (\<open>None\<close> when undefined) and whether the reset button exists.
\<close>

record env =
  windowOrbitControls :: bool
  threeOrbitControls :: bool
  threeControlsOrbitControls :: bool
  windowGLTFLoader :: bool
  threeGLTFLoader :: bool
  windowDRACOLoader :: bool
  threeDRACOLoader :: bool
  threeAddonsDRACOLoader :: bool
  devicePixelRatio :: "jsnum option"
  resetBtn :: bool

text \<open>
  \<open>controls.update()\<close> is three.js code. It reads the camera position, the target and
  its internal state and writes all three back; what it computes is the parameter
  \<open>upd\<close> of the model.
\<close>

type_synonym 'c update = "'c \<Rightarrow> vec3 \<Rightarrow> vec3 \<Rightarrow> 'c \<times> vec3 \<times> vec3"

definition orbitUpdate :: "'c update \<Rightarrow> 'c controls_obj \<Rightarrow> 'c viewer \<Rightarrow> 'c viewer" where
  "orbitUpdate upd ctl s =
     (case upd (internal ctl) (heap s (object ctl)) (heap s (target ctl)) of
        (c', p', t') \<Rightarrow>
          s\<lparr>heap := (heap s)(target ctl := t', object ctl := p'),
            controls := Some (ctl\<lparr>internal := c'\<rparr>)\<rparr>)"

text \<open>
  The user steering the camera between two calls of the viewer: the controls write a new
  position and a new target into the live objects, and change their internal state.
\<close>

definition navigate :: "'c \<times> vec3 \<times> vec3 \<Rightarrow> 'c viewer \<Rightarrow> 'c viewer" where
  "navigate m s =
     (case controls s of
        None \<Rightarrow> s
      | Some ctl \<Rightarrow>
          (case m of (c', p', t') \<Rightarrow>
             s\<lparr>heap := (heap s)(target ctl := t', object ctl := p'),
               controls := Some (ctl\<lparr>internal := c'\<rparr>)\<rparr>))"

fun navigates :: "('c \<times> vec3 \<times> vec3) list \<Rightarrow> 'c viewer \<Rightarrow> 'c viewer" where
  "navigates [] s = s"
| "navigates (m # ms) s = navigates ms (navigate m s)"

section \<open>The viewer's functions\<close>

text \<open>\<open>showError\<close>, lines 224--233.\<close>

definition showError :: "string \<Rightarrow> 'c viewer \<Rightarrow> 'c viewer" where
  "showError msg s =
     (let s1 = s\<lparr>console := console s @ [msg]\<rparr>
      in case loadingEl s1 of
           Some el \<Rightarrow>
             s1\<lparr>loadingEl := Some (el\<lparr>textContent := msg, display := ''block'',
                                      background := ''rgba(128,0,0,0.8)''\<rparr>)\<rparr>
         | None \<Rightarrow> s1\<lparr>alerts := alerts s1 @ [msg]\<rparr>)"

text \<open>
  The result of \<open>new THREE.Box3().setFromObject(object)\<close> as \<open>frameModel\<close> reads it:
  the vectors that \<open>getSize\<close> and \<open>getCenter\<close> fill in.
\<close>

record box3 =
  getSize :: vec3
  getCenter :: vec3

text \<open>Lines 186--187: \<open>Math.tan(fov / 2)\<close> for the field of view of the camera.\<close>

definition halfFovTan :: "jsnum \<Rightarrow> jsnum" where
  "halfFovTan camfov =
     (let fov = jmul camfov (jdiv MathPI (Num 180))
      in jtan (jdiv fov (Num 2)))"

text \<open>Lines 186--189: the distance from the largest dimension and \<open>camera.fov\<close>.\<close>

definition frameDistance :: "jsnum \<Rightarrow> jsnum \<Rightarrow> jsnum" where
  "frameDistance camfov maxDim =
     (let distance = jdiv maxDim (jmul (Num 2) (halfFovTan camfov))
      in jadd (jmul distance (Num 1.5)) (Num 0.5))"

text \<open>
  \<open>frameModel\<close>, lines 177--199: the camera is placed and the orbit target set. Reading
  a property of \<open>camera\<close> or \<open>controls\<close> while it is undefined throws.
\<close>

definition placeCamera :: "box3 \<Rightarrow> 'c viewer \<Rightarrow> error + 'c viewer" where
  "placeCamera box s =
     (let size = getSize box;
          center = getCenter box;
          maxDim = jmax3 (vx size) (vy size) (vz size)
      in case camera s of
           None \<Rightarrow> Inl TypeError
         | Some cam \<Rightarrow>
             (let distance = frameDistance (fov cam) maxDim;
                  camPos = Vector3 (vx center) (vy center) (jadd (vz center) distance);
                  cam1 = updateProjectionMatrix
                           (cam\<lparr>near := jmax (lit 0.01) (jdiv distance (Num 1000)),
                                far := jmul distance (Num 100)\<rparr>);
                  s1 = s\<lparr>heap := (heap s)(position cam := camPos), camera := Some cam1\<rparr>
              in case controls s1 of
                   None \<Rightarrow> Inl TypeError
                 | Some ctl \<Rightarrow> Inr (s1\<lparr>heap := (heap s1)(target ctl := center)\<rparr>)))"

text \<open>
  \<open>frameModel\<close>, lines 176--207: the placement above, then \<open>controls.update()\<close>
  and the two clones that make the saved initial state.
\<close>

definition frameModel :: "'c update \<Rightarrow> box3 \<Rightarrow> 'c viewer \<Rightarrow> error + 'c viewer" where
  "frameModel upd box s =
     (case placeCamera box s of
        Inl err \<Rightarrow> Inl err
      | Inr s2 \<Rightarrow>
          (case camera s2 of
             None \<Rightarrow> Inl TypeError
           | Some cam1 \<Rightarrow>
               (case controls s2 of
                  None \<Rightarrow> Inl TypeError
                | Some ctl \<Rightarrow>
                    (let s3 = orbitUpdate upd ctl s2;
                         a = nextAddr s3;
                         s4 = s3\<lparr>heap := (heap s3)(a := heap s3 (position cam1)),
                                 nextAddr := a + 1\<rparr>;
                         b = nextAddr s4;
                         s5 = s4\<lparr>heap := (heap s4)(b := heap s4 (target ctl)),
                                 nextAddr := b + 1\<rparr>
                     in Inr (s5\<lparr>initialCameraState := Some (a, b)\<rparr>)))))"

text \<open>\<open>resetView\<close>, lines 209--214.\<close>

definition resetView :: "'c update \<Rightarrow> 'c viewer \<Rightarrow> error + 'c viewer" where
  "resetView upd s =
     (case initialCameraState s of
        None \<Rightarrow> Inr s
      | Some (ipos, itarget) \<Rightarrow>
          (case camera s of
             None \<Rightarrow> Inl TypeError
           | Some cam \<Rightarrow>
               (let s1 = s\<lparr>heap := (heap s)(position cam := heap s ipos)\<rparr>
                in case controls s1 of
                     None \<Rightarrow> Inl TypeError
                   | Some ctl \<Rightarrow>
                       (let s2 = s1\<lparr>heap := (heap s1)(target ctl := heap s1 itarget)\<rparr>
                        in Inr (orbitUpdate upd ctl s2)))))"

text \<open>\<open>onWindowResize\<close>, lines 216--222.\<close>

definition onWindowResize :: "'c viewer \<Rightarrow> error + 'c viewer" where
  "onWindowResize s =
     (let w = clientWidth s; h = clientHeight s
      in case camera s of
           None \<Rightarrow> Inl TypeError
         | Some cam \<Rightarrow>
             (let s1 = s\<lparr>camera := Some (updateProjectionMatrix (cam\<lparr>aspect := jdiv w h\<rparr>))\<rparr>
              in case renderer s1 of
                   None \<Rightarrow> Inl TypeError
                 | Some r \<Rightarrow> Inr (s1\<lparr>renderer := Some (r\<lparr>width := w, height := h\<rparr>)\<rparr>)))"

text \<open>The host resizes the container, then delivers the \<open>resize\<close> event.\<close>

definition resize :: "jsnum \<Rightarrow> jsnum \<Rightarrow> 'c viewer \<Rightarrow> error + 'c viewer" where
  "resize w h s = onWindowResize (s\<lparr>clientWidth := w, clientHeight := h\<rparr>)"


text \<open>
  \<open>loadGLBModel\<close>, lines 78--145, up to the call of \<open>loader.load\<close>, which starts the
  load and returns; its callbacks run later and are the functions \<open>onLoad\<close> and
  \<open>onError\<close> below. The progress callback rewrites the text of the loading element
  and nothing else; it is not part of the model.
\<close>

definition loadGLBModel :: "env \<Rightarrow> 'c viewer \<Rightarrow> 'c viewer" where
  "loadGLBModel e s =
     (if \<not> (windowGLTFLoader e \<or> threeGLTFLoader e)
      then showError ''GLTFLoader not available in this build of three.js.'' s
      else
        (let s1 = (if windowDRACOLoader e \<or> threeDRACOLoader e \<or> threeAddonsDRACOLoader e
                   then s\<lparr>dracoSet := True\<rparr>
                   else s\<lparr>console := console s @
                     [''DRACOLoader not available - Draco compressed meshes may not load properly'']\<rparr>)
         in s1\<lparr>loadStarted := True\<rparr>))"

text \<open>The parsed asset: \<open>gltf.scene\<close> (\<open>None\<close> when falsy) and \<open>gltf.scenes\<close>.\<close>

record gltf =
  gltf_scene :: "node option"
  gltf_scenes :: "node list option"

text \<open>Line 107: \<open>gltf.scene || gltf.scenes?.[0]\<close>.\<close>

definition selectModel :: "gltf \<Rightarrow> node option" where
  "selectModel g =
     (case gltf_scene g of
        Some m \<Rightarrow> Some m
      | None \<Rightarrow>
          (case gltf_scenes g of
             None \<Rightarrow> None
           | Some [] \<Rightarrow> None
           | Some (m # _) \<Rightarrow> Some m))"

text \<open>
  The success callback, lines 103--132. \<open>boxOf\<close> is the bounding box three.js computes
  for the children of the model group. The traversal changes the model in place, and the
  model is by then the one child of the group.
\<close>

definition onLoad ::
  "three \<Rightarrow> 'c update \<Rightarrow> (node list \<Rightarrow> box3) \<Rightarrow> gltf \<Rightarrow> 'c viewer \<Rightarrow> error + 'c viewer" where
  "onLoad T upd boxOf g s =
     (let s1 = s\<lparr>modelGroup := []\<rparr>
      in case selectModel g of
           None \<Rightarrow> Inr (showError ''Loaded file contains no scene.'' s1)
         | Some model \<Rightarrow>
             (let s2 = s1\<lparr>modelGroup := modelGroup s1 @ [model]\<rparr>;
                  s3 = s2\<lparr>modelGroup := butlast (modelGroup s2) @ [traverse T model]\<rparr>
              in case frameModel upd (boxOf (modelGroup s3)) s3 of
                   Inl err \<Rightarrow> Inl err
                 | Inr s4 \<Rightarrow>
                     Inr (case loadingEl s4 of
                            None \<Rightarrow> s4
                          | Some el \<Rightarrow> s4\<lparr>loadingEl := Some (el\<lparr>display := ''none''\<rparr>)\<rparr>)))"

text \<open>The error callback, lines 140--143.\<close>

definition onError :: "'c viewer \<Rightarrow> 'c viewer" where
  "onError s =
     showError ''Failed to load 3D model. See console for details.''
       (s\<lparr>console := console s @ [''GLTF load error:'']\<rparr>)"

text \<open>
  \<open>init\<close>, lines 17--76. \<open>c0\<close> is the internal state of freshly made controls. The
  output colour space of the renderer (lines 22--32) and the parameters of the lights are
  not part of the model: nothing below reads them.
\<close>

definition init :: "env \<Rightarrow> 'c \<Rightarrow> 'c viewer \<Rightarrow> 'c viewer" where
  "init e c0 s =
     (let dpr = (case devicePixelRatio e of
                   None \<Rightarrow> Num 1
                 | Some d \<Rightarrow> if truthy d then d else Num 1);
          s1 = s\<lparr>renderer := Some \<lparr>pixelRatio = jmin dpr (Num 2), width = clientWidth s,
                                   height = clientHeight s, frames = 0\<rparr>\<rparr>;
          s2 = s1\<lparr>scene := Some []\<rparr>;
          a = nextAddr s2;
          asp = jdiv (clientWidth s2) (clientHeight s2);
          cam = \<lparr>position = a, fov = Num 45, aspect = asp, near = lit 0.1, far = Num 10000,
                 projection = (Num 45, asp, lit 0.1, Num 10000)\<rparr>;
          s3 = s2\<lparr>heap := (heap s2)(a := Vector3 (Num 0) (Num 5) (Num 10)),
                  nextAddr := a + 1, camera := Some cam\<rparr>;
          s4 = s3\<lparr>scene := Some [''hemi'', ''dir'', ''modelGroup'']\<rparr>
      in if \<not> (windowOrbitControls e \<or> threeOrbitControls e \<or> threeControlsOrbitControls e)
         then showError ''OrbitControls not available in this build of three.js.'' s4
         else
           (let b = nextAddr s4;
                ctl = \<lparr>object = a, target = b, enableDamping = True,
                       dampingFactor = lit 0.07, internal = c0\<rparr>;
                s5 = s4\<lparr>heap := (heap s4)(b := Vector3 (Num 0) (Num 0) (Num 0)),
                        nextAddr := b + 1, controls := Some ctl\<rparr>;
                s6 = loadGLBModel e s5;
                s7 = s6\<lparr>listeners := listeners s6 @ [''resize'']\<rparr>
            in if resetBtn e then s7\<lparr>listeners := listeners s7 @ [''click'']\<rparr> else s7))"

text \<open>
  One frame of \<open>animate\<close>, lines 235--239. \<open>requestAnimationFrame(animate)\<close> asks the
  host for the next frame, so the render loop is this function run frame after frame.
\<close>

definition animate :: "'c update \<Rightarrow> 'c viewer \<Rightarrow> 'c viewer" where
  "animate upd s =
     (let s1 = (case controls s of None \<Rightarrow> s | Some ctl \<Rightarrow> orbitUpdate upd ctl s)
      in case renderer s1 of
           None \<Rightarrow> s1
         | Some r \<Rightarrow>
             (case scene s1 of
                None \<Rightarrow> s1
              | Some sc \<Rightarrow>
                  (case camera s1 of
                     None \<Rightarrow> s1
                   | Some cam \<Rightarrow> s1\<lparr>renderer := Some (r\<lparr>frames := frames r + 1\<rparr>)\<rparr>)))"

text \<open>The module's variables after lines 6--12, before \<open>init()\<close> runs.\<close>

definition module0 :: "loading_el option \<Rightarrow> jsnum \<Rightarrow> jsnum \<Rightarrow> 'c viewer" where
  "module0 el w h =
     \<lparr>heap = (\<lambda>_. Vector3 (Num 0) (Num 0) (Num 0)), nextAddr = 0, camera = None,
      scene = None, renderer = None, controls = None, modelGroup = [],
      initialCameraState = None, loadingEl = el, console = [], alerts = [],
      clientWidth = w, clientHeight = h, loadStarted = False, dracoSet = False,
      listeners = []\<rparr>"

text \<open>Lines 14--15: \<open>init(); animate();\<close>.\<close>

definition startup :: "env \<Rightarrow> 'c \<Rightarrow> 'c update \<Rightarrow> 'c viewer \<Rightarrow> 'c viewer" where
  "startup e c0 upd s = animate upd (init e c0 s)"

text \<open>
  The objects of a state are in order when the camera's position vector is allocated, and
  the controls, if any, steer that camera and have an allocated target vector of their own.
\<close>

definition wf_viewer :: "'c viewer \<Rightarrow> bool" where
  "wf_viewer s =
     (case camera s of
        None \<Rightarrow> controls s = None
      | Some cam \<Rightarrow>
          position cam < nextAddr s \<and>
          (case controls s of
             None \<Rightarrow> True
           | Some ctl \<Rightarrow>
               object ctl = position cam \<and> target ctl < nextAddr s \<and>
               target ctl \<noteq> position cam))"

section \<open>Notions used in the statements\<close>

text \<open>
  What can happen between \<open>init\<close> and the callback of the loader: frames of the render
  loop, resizes of the container, clicks on the reset button, and the user steering the
  camera. A handler that throws ends the run with the error.
\<close>

datatype 'c event = Frame | Resize jsnum jsnum | ResetClick | Steer "'c \<times> vec3 \<times> vec3"

fun handle :: "'c update \<Rightarrow> 'c event \<Rightarrow> 'c viewer \<Rightarrow> error + 'c viewer" where
  "handle upd Frame s = Inr (animate upd s)"
| "handle upd (Resize w h) s = resize w h s"
| "handle upd ResetClick s = resetView upd s"
| "handle upd (Steer m) s = Inr (navigate m s)"

fun run :: "'c update \<Rightarrow> 'c event list \<Rightarrow> 'c viewer \<Rightarrow> error + 'c viewer" where
  "run upd [] s = Inr s"
| "run upd (ev # evs) s =
     (case handle upd ev s of Inl err \<Rightarrow> Inl err | Inr s' \<Rightarrow> run upd evs s')"

text \<open>
  Before the loader has called back: camera and renderer exist and nothing has been saved.
\<close>

definition ready :: "'c viewer \<Rightarrow> bool" where
  "ready s = (camera s \<noteq> None \<and> renderer s \<noteq> None \<and> initialCameraState s = None)"

text \<open>
  The values held by the live camera position and orbit target, and by the two vectors of
  the saved initial state.
\<close>

definition livePosition :: "'c viewer \<Rightarrow> vec3 option" where
  "livePosition s = map_option (\<lambda>cam. heap s (position cam)) (camera s)"

definition liveTarget :: "'c viewer \<Rightarrow> vec3 option" where
  "liveTarget s = map_option (\<lambda>ctl. heap s (target ctl)) (controls s)"

definition savedPosition :: "'c viewer \<Rightarrow> vec3 option" where
  "savedPosition s = map_option (\<lambda>(a, b). heap s a) (initialCameraState s)"

definition savedTarget :: "'c viewer \<Rightarrow> vec3 option" where
  "savedTarget s = map_option (\<lambda>(a, b). heap s b) (initialCameraState s)"

text \<open>
  A state with a saved initial state whose two vectors are objects of their own, apart
  from the live position and target.
\<close>

definition snapshot_ok :: "'c viewer \<Rightarrow> bool" where
  "snapshot_ok s =
     (case camera s of
        None \<Rightarrow> False
      | Some cam \<Rightarrow>
          (case controls s of
             None \<Rightarrow> False
           | Some ctl \<Rightarrow>
               (case initialCameraState s of
                  None \<Rightarrow> False
                | Some (a, b) \<Rightarrow>
                    object ctl = position cam \<and> target ctl \<noteq> position cam \<and>
                    a \<noteq> position cam \<and> a \<noteq> target ctl \<and>
                    b \<noteq> position cam \<and> b \<noteq> target ctl)))"

subsection \<open>Concrete pages, states and assets\<close>

text \<open>
  A page that offers all three helper classes under \<open>THREE\<close>, an 800 by 600 container and
  a loading element; controls that are at rest; the state of the viewer after \<open>init\<close> on
  that page; the box with corners \<open>(-1,-1,-1)\<close> and \<open>(1,1,1)\<close>, the box of an empty
  group, and a flat box, of no volume, as wide as \<open>2 ^ 1023\<close>.
\<close>

definition idle :: "unit update" where
  "idle c p t = (c, p, t)"

definition page :: env where
  "page = \<lparr>windowOrbitControls = False, threeOrbitControls = True,
            threeControlsOrbitControls = False, windowGLTFLoader = False,
            threeGLTFLoader = True, windowDRACOLoader = False, threeDRACOLoader = True,
            threeAddonsDRACOLoader = False, devicePixelRatio = Some (Num 1), resetBtn = True\<rparr>"

definition page_without_orbit :: env where
  "page_without_orbit = page\<lparr>threeOrbitControls := False\<rparr>"

definition loading0 :: loading_el where
  "loading0 = \<lparr>textContent = ''Loading 3D model...'', display = ''block'', background = ''''\<rparr>"

definition viewer0 :: "unit viewer" where
  "viewer0 = init page () (module0 (Some loading0) (Num 800) (Num 600))"

definition cube :: box3 where
  "cube = \<lparr>getSize = Vector3 (Num 2) (Num 2) (Num 2),
            getCenter = Vector3 (Num 0) (Num 0) (Num 0)\<rparr>"



text \<open>The state after framing the cube, and two drags of the camera.\<close>

definition framed :: "unit viewer" where
  "framed = (case frameModel idle cube viewer0 of Inr s \<Rightarrow> s | Inl _ \<Rightarrow> viewer0)"

definition drag :: "(unit \<times> vec3 \<times> vec3) list" where
  "drag = [((), Vector3 (Num 3) (Num 4) (Num 5), Vector3 (Num 1) (Num 0) (Num 0)),
           ((), Vector3 (Num (- 7)) (Num 2) (Num 9), Vector3 (Num 1) (Num 1) (Num 0))]"

text \<open>
  Orbit controls with damping, as far as panning goes. Their internal state is the pan the
  user has asked for and that is still to be carried out. Each \<open>update()\<close> moves the
  target by that pan times the damping factor the viewer sets (line 66), moves the camera
  along with it, and leaves the rest of the pan for later updates.
\<close>

definition vadd :: "vec3 \<Rightarrow> vec3 \<Rightarrow> vec3" where
  "vadd a b = Vector3 (jadd (vx a) (vx b)) (jadd (vy a) (vy b)) (jadd (vz a) (vz b))"

definition vscale :: "vec3 \<Rightarrow> jsnum \<Rightarrow> vec3" where
  "vscale a k = Vector3 (jmul (vx a) k) (jmul (vy a) k) (jmul (vz a) k)"

definition damped :: "vec3 update" where
  "damped pan p t =
     (let step = vscale pan (lit 0.07)
      in (vscale pan (jadd (Num 1) (jneg (lit 0.07))), vadd p step, vadd t step))"

text \<open>
  The viewer with such controls, nothing pending, after \<open>init\<close> and after framing the
  cube; and the user panning, which leaves a pan of one unit along \<open>x\<close> pending.
\<close>

definition viewer_d :: "vec3 viewer" where
  "viewer_d = init page (Vector3 (Num 0) (Num 0) (Num 0))
                (module0 (Some loading0) (Num 800) (Num 600))"

definition framed_d :: "vec3 viewer" where
  "framed_d = (case frameModel damped cube viewer_d of Inr s \<Rightarrow> s | Inl _ \<Rightarrow> viewer_d)"

definition pan_drag :: "(vec3 \<times> vec3 \<times> vec3) list" where
  "pan_drag = [(Vector3 (Num 1) (Num 0) (Num 0),
                Vector3 (Num 1) (Num 0) (Num 5), Vector3 (Num 1) (Num 0) (Num 0))]"

text \<open>
  A material of a release with \<open>encoding\<close> textures, a model that uses it, an asset with
  that model as its scene and an asset without any scene.
\<close>

definition legacy_texture :: texture where
  "legacy_texture = \<lparr>colorSpace = None, encoding = Some (NumV 3000), flipY = BoolV True\<rparr>"

definition legacy_material :: material where
  "legacy_material = \<lparr>map_slot = Some legacy_texture, emissiveMap = Some legacy_texture,
                        lightMap = Some legacy_texture, needsUpdate = BoolV False\<rparr>"

definition demo_model :: node where
  "demo_model = Node False NoMaterial [Node True (Single legacy_material) []]"

definition gltf_model :: gltf where
  "gltf_model = \<lparr>gltf_scene = Some demo_model, gltf_scenes = Some [demo_model]\<rparr>"

definition gltf_empty :: gltf where
  "gltf_empty = \<lparr>gltf_scene = None, gltf_scenes = Some []\<rparr>"

definition cube_of :: "node list \<Rightarrow> box3" where
  "cube_of ns = cube"

text \<open>Some events before the loader calls back.\<close>

definition before_load :: "unit event list" where
  "before_load = [Frame, Resize (Num 400) (Num 300), ResetClick, Frame]"

section \<open>Auxiliary facts\<close>

subsection \<open>Rounding\<close>

lemma rne_of_int [simp]: "rne (of_int n) = n"
  by (simp add: rne_def)

lemma rne_zero [simp]: "rne 0 = 0"
  by (simp add: rne_def)

lemma rne_bounds: "\<lfloor>a\<rfloor> \<le> rne a \<and> rne a \<le> \<lfloor>a\<rfloor> + 1"
  by (simp add: rne_def Let_def)

lemma rne_mono:
  assumes "a \<le> b"
  shows "rne a \<le> rne b"
proof (cases "\<lfloor>a\<rfloor> = \<lfloor>b\<rfloor>")
  case True
  with assms show ?thesis by (auto simp: rne_def Let_def)
next
  case False
  with assms have "\<lfloor>a\<rfloor> < \<lfloor>b\<rfloor>" by (simp add: floor_mono less_le)
  with rne_bounds [of a] rne_bounds [of b] show ?thesis by linarith
qed

lemma ulp_pos [simp]: "0 < ulp x"
  by (simp add: ulp_def)

lemma ulp_nonneg [simp]: "0 \<le> ulp x"
  by (simp add: ulp_def)

lemma ulp_abs [simp]: "ulp (- x) = ulp x"
  by (simp add: ulp_def expo_def)

lemma expo_mono:
  assumes "0 < x" and "x \<le> y"
  shows "expo x \<le> expo y"
proof -
  from assms have "log 2 x \<le> log 2 y" by simp
  then have "\<lfloor>log 2 x\<rfloor> \<le> \<lfloor>log 2 y\<rfloor>" by (rule floor_mono)
  with assms show ?thesis by (simp add: expo_def)
qed

lemma below_next_binade:
  assumes "0 < x"
  shows "x < 2 powr (of_int (expo x) + 1)"
proof -
  have "log 2 x < of_int \<lfloor>log 2 x\<rfloor> + 1" by linarith
  also have "\<dots> \<le> of_int (expo x) + 1" using assms by (simp add: expo_def)
  finally have "log 2 x < of_int (expo x) + 1" .
  with assms show ?thesis by (simp add: log_less_iff)
qed

lemma above_binade:
  assumes "0 < x" and "- 1022 < expo x"
  shows "2 powr of_int (expo x) \<le> x"
proof -
  from assms have "expo x = \<lfloor>log 2 x\<rfloor>" by (simp add: expo_def max_def split: if_splits)
  then have "of_int (expo x) \<le> log 2 x" by simp
  with assms show ?thesis by (simp add: le_log_iff)
qed

lemma roundPos_mono:
  assumes "0 < x" and "x \<le> y"
  shows "of_int (rne (x / ulp x)) * ulp x \<le> of_int (rne (y / ulp y)) * ulp y"
proof (cases "expo x = expo y")
  case True
  then have u: "ulp x = ulp y" by (simp add: ulp_def)
  have "x / ulp y \<le> y / ulp y"
    by (rule divide_right_mono) (simp_all add: assms)
  then have "rne (x / ulp y) \<le> rne (y / ulp y)" by (rule rne_mono)
  then show ?thesis by (simp add: u)
next
  case False
  with expo_mono [OF assms] have lt: "expo x < expo y" by simp
  have y: "0 < y" using assms by simp
  have "x / ulp x \<le> 2 powr 53"
  proof -
    have "x / ulp x \<le> 2 powr (of_int (expo x) + 1) / ulp x"
      by (rule divide_right_mono) (use below_next_binade [OF assms(1)] in simp_all)
    also have "\<dots> = 2 powr 53"
      by (simp add: ulp_def powr_diff [symmetric])
    finally show ?thesis .
  qed
  then have "x / ulp x \<le> of_int (2 ^ 53)" by simp
  then have "rne (x / ulp x) \<le> rne (of_int (2 ^ 53))" by (rule rne_mono)
  then have "rne (x / ulp x) \<le> 2 ^ 53" by (simp only: rne_of_int)
  then have "real_of_int (rne (x / ulp x)) \<le> real_of_int (2 ^ 53)"
    by (simp only: of_int_le_iff)
  then have "real_of_int (rne (x / ulp x)) \<le> 2 ^ 53" by simp
  then have "of_int (rne (x / ulp x)) * ulp x \<le> 2 ^ 53 * ulp x"
    by (rule mult_right_mono) simp_all
  also have "2 ^ 53 * ulp x = 2 powr (of_int (expo x) + 1)"
  proof -
    have "(2::real) ^ 53 * ulp x = 2 powr 53 * 2 powr (of_int (expo x) - 52)"
      by (simp add: ulp_def)
    also have "\<dots> = 2 powr (53 + (of_int (expo x) - 52))"
      by (simp only: powr_add)
    also have "53 + (real_of_int (expo x) - 52) = of_int (expo x) + 1" by simp
    finally show ?thesis .
  qed
  finally have a: "of_int (rne (x / ulp x)) * ulp x \<le> 2 powr (of_int (expo x) + 1)" .
  have n: "- 1022 < expo y" using lt by (simp add: expo_def)
  have "2 powr 52 = 2 powr of_int (expo y) / ulp y"
    by (simp add: ulp_def powr_diff [symmetric])
  also have "\<dots> \<le> y / ulp y"
    by (rule divide_right_mono) (use above_binade [OF y n] in simp_all)
  finally have "of_int (2 ^ 52) \<le> y / ulp y" by simp
  then have "rne (of_int (2 ^ 52)) \<le> rne (y / ulp y)" by (rule rne_mono)
  then have "2 ^ 52 \<le> rne (y / ulp y)" by (simp only: rne_of_int)
  then have "real_of_int (2 ^ 52) \<le> real_of_int (rne (y / ulp y))"
    by (simp only: of_int_le_iff)
  then have "2 ^ 52 \<le> real_of_int (rne (y / ulp y))" by simp
  then have c: "2 ^ 52 * ulp y \<le> of_int (rne (y / ulp y)) * ulp y"
    by (rule mult_right_mono) simp_all
  have d: "2 ^ 52 * ulp y = 2 powr of_int (expo y)"
  proof -
    have "(2::real) ^ 52 * ulp y = 2 powr 52 * 2 powr (of_int (expo y) - 52)"
      by (simp add: ulp_def)
    also have "\<dots> = 2 powr (52 + (of_int (expo y) - 52))"
      by (simp only: powr_add)
    also have "52 + (real_of_int (expo y) - 52) = of_int (expo y)" by simp
    finally show ?thesis .
  qed
  have b: "2 powr of_int (expo y) \<le> of_int (rne (y / ulp y)) * ulp y"
    using c unfolding d .
  have "(2::real) powr (of_int (expo x) + 1) \<le> 2 powr of_int (expo y)"
    using lt by simp
  with a b show ?thesis by linarith
qed


lemma roundD_minus [simp]: "roundD (- x) = - roundD x"
  by (simp add: roundD_def sgn_minus)

lemma roundD_zero [simp]: "roundD 0 = 0"
  by (simp add: roundD_def)

lemma rne_nonneg: "0 \<le> a \<Longrightarrow> 0 \<le> rne a"
  using rne_mono [of 0 a] by simp

lemma roundD_pos: "0 < x \<Longrightarrow> roundD x = of_int (rne (x / ulp x)) * ulp x"
  by (simp add: roundD_def)

lemma roundD_nonneg: "0 \<le> x \<Longrightarrow> 0 \<le> roundD x"
proof (cases "x = 0")
  case True
  then show ?thesis by simp
next
  case False
  assume "0 \<le> x"
  with False have x: "0 < x" by simp
  have "0 \<le> rne (x / ulp x)" by (rule rne_nonneg) (use x in simp)
  then show ?thesis by (simp add: roundD_pos [OF x])
qed

lemma roundD_mono:
  assumes "x \<le> y"
  shows "roundD x \<le> roundD y"
proof -
  consider "0 < x" | "x \<le> 0" "0 \<le> y" | "y < 0" by linarith
  then show ?thesis
  proof cases
    case 1
    with assms have "0 < y" by simp
    with 1 roundPos_mono [OF 1 assms] show ?thesis by (simp add: roundD_pos)
  next
    case 2
    from roundD_nonneg [of "- x"] 2(1) have "roundD x \<le> 0" by simp
    with roundD_nonneg [OF 2(2)] show ?thesis by simp
  next
    case 3
    with assms have a: "0 < - y" "- y \<le> - x" by simp_all
    then have "0 < - x" by simp
    with a roundPos_mono [OF a] have "roundD (- y) \<le> roundD (- x)"
      by (simp only: roundD_pos)
    then show ?thesis by simp
  qed
qed

lemma roundD_exact:
  assumes "\<bar>x\<bar> / ulp x = of_int n"
  shows "roundD x = x"
proof -
  have "ulp x \<noteq> 0" by (simp add: ulp_def)
  with assms have "\<bar>x\<bar> = of_int n * ulp x" by (simp add: field_simps)
  then have "sgn x * (of_int n * ulp x) = sgn x * \<bar>x\<bar>" by simp
  also have "\<dots> = x" by (rule sgn_mult_abs)
  finally show ?thesis using assms by (simp add: roundD_def mult.assoc)
qed

lemma fl_not_NaN [simp]: "fl x \<noteq> NaN"
  by (simp add: fl_def)


lemma roundD_exactI:
  assumes "2 powr of_int k \<le> x" and "x < 2 powr (of_int k + 1)" and "- 1022 \<le> k"
    and "x / 2 powr (of_int k - 52) = of_int n"
  shows "roundD x = x"
proof -
  have x: "0 < x" using assms(1) by (rule less_le_trans [rotated]) simp
  then have "\<lfloor>log 2 x\<rfloor> = k"
    using assms(1,2) by (simp add: floor_log_eq_powr_iff)
  with x assms(3) have "expo x = k" by (simp add: expo_def)
  then have "ulp x = 2 powr (of_int k - 52)" by (simp add: ulp_def)
  with x assms(4) have "\<bar>x\<bar> / ulp x = of_int n" by simp
  then show ?thesis by (rule roundD_exact)
qed



lemma roundD_2_1023: "roundD (2 ^ 1023) = 2 ^ 1023"
  by (rule roundD_exactI [where k = 1023 and n = "2 ^ 52"]) simp_all


lemma roundD_pow2:
  assumes "- 1022 \<le> k"
  shows "roundD (2 powr of_int k) = 2 powr of_int k"
proof (rule roundD_exactI [where k = k and n = "2 ^ 52"])
  show "2 powr of_int k / 2 powr (of_int k - 52) = real_of_int (2 ^ 52)"
    by (simp add: powr_diff [symmetric])
qed (simp_all add: assms)

lemma roundD_two_power: "n \<le> 1023 \<Longrightarrow> roundD (2 ^ n) = 2 ^ n"
  using roundD_pow2 [of "int n"] by (simp add: powr_realpow)

lemma roundD_inverse_two_power: "n \<le> 1022 \<Longrightarrow> roundD (1 / 2 ^ n) = 1 / 2 ^ n"
  using roundD_pow2 [of "- int n"] by (simp add: powr_minus_divide powr_realpow)

lemma overflowAt_pos: "0 < overflowAt"
  by (simp add: overflowAt_def)

lemma fl_Num: "- overflowAt < x \<Longrightarrow> x < overflowAt \<Longrightarrow> fl x = Num (roundD x)"
  by (simp add: fl_def)

lemma fl_zero [simp]: "fl 0 = Num 0"
  using overflowAt_pos by (simp add: fl_def)

lemma fl_between:
  assumes "lo \<le> x" and "x \<le> hi" and "roundD lo = lo" and "roundD hi = hi"
    and "- overflowAt < lo" and "hi < overflowAt"
  shows "\<exists>r. fl x = Num r \<and> lo \<le> r \<and> r \<le> hi"
proof -
  from assms have "fl x = Num (roundD x)" by (intro fl_Num) simp_all
  moreover from roundD_mono [OF assms(1)] assms(3) have "lo \<le> roundD x" by simp
  moreover from roundD_mono [OF assms(2)] assms(4) have "roundD x \<le> hi" by simp
  ultimately show ?thesis by blast
qed




lemma overflowAt_big: "2 ^ 1023 < overflowAt"
  by (simp add: overflowAt_def)

lemma small_lt_overflowAt: "x \<le> 2 ^ 1023 \<Longrightarrow> x < overflowAt"
  using overflowAt_big by simp


subsection \<open>The tangent of half the viewer's field of view\<close>







subsection \<open>The order of numbers and the distance\<close>


lemma jle_refl_Num [simp]: "jle (Num a) (Num a)"
  by simp












subsection \<open>Error display and load start leave the rest of the state alone\<close>

lemma showError_frame [simp]:
  "heap (showError msg s) = heap s" "nextAddr (showError msg s) = nextAddr s"
  "camera (showError msg s) = camera s" "scene (showError msg s) = scene s"
  "renderer (showError msg s) = renderer s" "controls (showError msg s) = controls s"
  "modelGroup (showError msg s) = modelGroup s"
  "initialCameraState (showError msg s) = initialCameraState s"
  "clientWidth (showError msg s) = clientWidth s"
  "clientHeight (showError msg s) = clientHeight s"
  "loadStarted (showError msg s) = loadStarted s" "dracoSet (showError msg s) = dracoSet s"
  "listeners (showError msg s) = listeners s"
  by (simp_all add: showError_def Let_def split: option.splits)

lemma showError_shown [simp]:
  "console (showError msg s) = console s @ [msg]"
  "loadingEl (showError msg s) =
     map_option (\<lambda>el. el\<lparr>textContent := msg, display := ''block'',
                            background := ''rgba(128,0,0,0.8)''\<rparr>) (loadingEl s)"
  "alerts (showError msg s) = (if loadingEl s = None then alerts s @ [msg] else alerts s)"
  by (simp_all add: showError_def Let_def split: option.splits)

lemma loadGLBModel_frame [simp]:
  "heap (loadGLBModel e s) = heap s" "nextAddr (loadGLBModel e s) = nextAddr s"
  "camera (loadGLBModel e s) = camera s" "scene (loadGLBModel e s) = scene s"
  "renderer (loadGLBModel e s) = renderer s" "controls (loadGLBModel e s) = controls s"
  "modelGroup (loadGLBModel e s) = modelGroup s"
  "initialCameraState (loadGLBModel e s) = initialCameraState s"
  "clientWidth (loadGLBModel e s) = clientWidth s"
  "clientHeight (loadGLBModel e s) = clientHeight s"
  "listeners (loadGLBModel e s) = listeners s"
  by (simp_all add: loadGLBModel_def Let_def)

lemma init_wf: "wf_viewer (init e c0 (module0 el w h))"
  by (simp add: init_def module0_def wf_viewer_def Let_def)

subsection \<open>What framing writes\<close>

lemma placeCamera_success:
  assumes wf: "wf_viewer s" and cam: "camera s = Some cam" and ctl: "controls s = Some ctl"
  shows "\<exists>s2 cam'. placeCamera box s = Inr s2 \<and> camera s2 = Some cam' \<and>
     controls s2 = Some ctl \<and> position cam' = position cam \<and>
     fov cam' = fov cam \<and> aspect cam' = aspect cam \<and>
     near cam' = jmax (lit 0.01)
        (jdiv (frameDistance (fov cam)
           (jmax3 (vx (getSize box)) (vy (getSize box)) (vz (getSize box)))) (Num 1000)) \<and>
     far cam' = jmul (frameDistance (fov cam)
           (jmax3 (vx (getSize box)) (vy (getSize box)) (vz (getSize box)))) (Num 100) \<and>
     heap s2 (position cam) = Vector3 (vx (getCenter box)) (vy (getCenter box))
        (jadd (vz (getCenter box)) (frameDistance (fov cam)
           (jmax3 (vx (getSize box)) (vy (getSize box)) (vz (getSize box))))) \<and>
     heap s2 (target ctl) = getCenter box \<and>
     nextAddr s2 = nextAddr s \<and> modelGroup s2 = modelGroup s \<and> wf_viewer s2"
proof -
  from wf cam ctl have a: "position cam < nextAddr s" "target ctl < nextAddr s"
    "target ctl \<noteq> position cam" "object ctl = position cam"
    by (simp_all add: wf_viewer_def)
  show ?thesis
    using a cam ctl
    by (simp add: placeCamera_def Let_def updateProjectionMatrix_def wf_viewer_def)
qed

lemma frameModel_after_place:
  assumes "placeCamera box s = Inr s2" and "camera s2 = Some cam'" and "controls s2 = Some ctl"
    and "wf_viewer s2"
  shows "\<exists>s'. frameModel upd box s = Inr s' \<and> camera s' = Some cam' \<and>
     modelGroup s' = modelGroup s2 \<and>
     livePosition s' = Some (fst (snd (upd (internal ctl) (heap s2 (position cam'))
                                         (heap s2 (target ctl))))) \<and>
     liveTarget s' = Some (snd (snd (upd (internal ctl) (heap s2 (position cam'))
                                         (heap s2 (target ctl)))))"
proof -
  from assms(2-4) have a: "position cam' < nextAddr s2" "target ctl < nextAddr s2"
    "target ctl \<noteq> position cam'" "object ctl = position cam'"
    by (simp_all add: wf_viewer_def)
  obtain c' p' t' where u: "upd (internal ctl) (heap s2 (position cam')) (heap s2 (target ctl))
      = (c', p', t')"
    using prod_cases3 by blast
  show ?thesis
    using a assms(1-3) u
    by (simp add: frameModel_def Let_def orbitUpdate_def livePosition_def liveTarget_def)
qed

subsection \<open>The saved initial state is a copy\<close>

lemma frameModel_snapshot:
  assumes "wf_viewer s0" and "frameModel upd box s0 = Inr s1"
  shows "snapshot_ok s1 \<and> savedPosition s1 = livePosition s1 \<and>
         savedTarget s1 = liveTarget s1"
proof -
  from assms(2) obtain s2 where p: "placeCamera box s0 = Inr s2"
    by (auto simp: frameModel_def split: sum.splits)
  then obtain cam ctl where c: "camera s0 = Some cam" "controls s0 = Some ctl"
    by (auto simp: placeCamera_def Let_def split: option.splits)
  from placeCamera_success [OF assms(1) c, of box] p
  obtain cam' where r: "camera s2 = Some cam'" "controls s2 = Some ctl" "wf_viewer s2"
    by auto
  then have a: "position cam' < nextAddr s2" "target ctl < nextAddr s2"
    "target ctl \<noteq> position cam'" "object ctl = position cam'"
    by (simp_all add: wf_viewer_def)
  obtain c' p' t' where u: "upd (internal ctl) (heap s2 (position cam')) (heap s2 (target ctl))
      = (c', p', t')"
    using prod_cases3 by blast
  from assms(2) p r(1,2) a u have s1: "s1 = s2\<lparr>heap := (heap s2)(target ctl := t',
           position cam' := p', nextAddr s2 := p', Suc (nextAddr s2) := t'),
        nextAddr := nextAddr s2 + 2,
        controls := Some (ctl\<lparr>internal := c'\<rparr>),
        initialCameraState := Some (nextAddr s2, Suc (nextAddr s2))\<rparr>"
    by (auto simp: frameModel_def Let_def orbitUpdate_def)
  show ?thesis
    using a r(1) by (simp add: s1 snapshot_ok_def savedPosition_def livePosition_def
        savedTarget_def liveTarget_def)
qed

lemma navigate_snapshot:
  assumes "snapshot_ok s"
  shows "snapshot_ok (navigate m s) \<and> savedPosition (navigate m s) = savedPosition s \<and>
         savedTarget (navigate m s) = savedTarget s"
  using assms
  by (auto simp: snapshot_ok_def navigate_def savedPosition_def savedTarget_def
      split: option.splits prod.splits)

lemma navigates_snapshot:
  "snapshot_ok s \<Longrightarrow>
   snapshot_ok (navigates ms s) \<and> savedPosition (navigates ms s) = savedPosition s \<and>
   savedTarget (navigates ms s) = savedTarget s"
proof (induction ms arbitrary: s)
  case Nil
  then show ?case by simp
next
  case (Cons m ms)
  from navigate_snapshot [OF Cons.prems, of m] Cons.IH [of "navigate m s"]
  show ?case by simp
qed

lemma resetView_snapshot:
  assumes "snapshot_ok s"
  shows "\<exists>s' p t ctl. resetView upd s = Inr s' \<and> controls s = Some ctl \<and>
     savedPosition s = Some p \<and> savedTarget s = Some t \<and>
     livePosition s' = Some (fst (snd (upd (internal ctl) p t))) \<and>
     liveTarget s' = Some (snd (snd (upd (internal ctl) p t))) \<and>
     savedPosition s' = Some p \<and> savedTarget s' = Some t"
proof -
  from assms obtain cam ctl a b where c: "camera s = Some cam" "controls s = Some ctl"
    "initialCameraState s = Some (a, b)" "object ctl = position cam"
    "target ctl \<noteq> position cam" "a \<noteq> position cam" "a \<noteq> target ctl"
    "b \<noteq> position cam" "b \<noteq> target ctl"
    by (auto simp: snapshot_ok_def split: option.splits)
  obtain c' p' t' where u: "upd (internal ctl) (heap s a) (heap s b) = (c', p', t')"
    using prod_cases3 by blast
  have r: "resetView upd s = Inr (s\<lparr>heap := (heap s)(target ctl := t', position cam := p'),
       controls := Some (ctl\<lparr>internal := c'\<rparr>)\<rparr>)"
    using c u by (simp add: resetView_def Let_def orbitUpdate_def)
  show ?thesis
    using c u by (simp add: r savedPosition_def savedTarget_def livePosition_def liveTarget_def)
qed

lemma navigate_internal:
  "controls s = Some ctl \<Longrightarrow>
   \<exists>ctl'. controls (navigate (c', p', t') s) = Some ctl' \<and> internal ctl' = c'"
  by (simp add: navigate_def)

subsection \<open>The concrete states\<close>

lemma viewer0_camera:
  "camera viewer0 = Some \<lparr>position = 0, fov = Num 45, aspect = jdiv (Num 800) (Num 600),
     near = lit 0.1, far = Num 10000,
     projection = (Num 45, jdiv (Num 800) (Num 600), lit 0.1, Num 10000)\<rparr>"
  by (simp add: viewer0_def init_def module0_def page_def Let_def loadGLBModel_def)

lemma viewer0_controls:
  "controls viewer0 = Some \<lparr>object = 0, target = 1, enableDamping = True,
     dampingFactor = lit 0.07, internal = ()\<rparr>"
  by (simp add: viewer0_def init_def module0_def page_def Let_def loadGLBModel_def)

lemma viewer0_initial: "initialCameraState viewer0 = None"
  by (simp add: viewer0_def init_def module0_def page_def Let_def loadGLBModel_def)

lemma viewer0_wf: "wf_viewer viewer0"
  unfolding viewer0_def by (rule init_wf)

lemma framed_eq: "frameModel idle cube viewer0 = Inr framed"
proof -
  from placeCamera_success [OF viewer0_wf viewer0_camera viewer0_controls, of cube]
  obtain s2 cam' where r: "placeCamera cube viewer0 = Inr s2" "camera s2 = Some cam'"
     "controls s2 = Some \<lparr>object = 0, target = 1, enableDamping = True,
        dampingFactor = lit 0.07, internal = ()\<rparr>" "wf_viewer s2"
    by auto
  from frameModel_after_place [OF r, of idle]
  obtain s' where "frameModel idle cube viewer0 = Inr s'" by blast
  then show ?thesis by (simp add: framed_def)
qed

lemma viewer0_renderer:
  "renderer viewer0 = Some \<lparr>pixelRatio = Num 1, width = Num 800, height = Num 600, frames = 0\<rparr>"
  by (simp add: viewer0_def init_def module0_def page_def Let_def)

lemma gltf_empty_no_scene: "selectModel gltf_empty = None"
  by (simp add: selectModel_def gltf_empty_def)

lemma viewer_d_camera:
  "camera viewer_d = Some \<lparr>position = 0, fov = Num 45, aspect = jdiv (Num 800) (Num 600),
     near = lit 0.1, far = Num 10000,
     projection = (Num 45, jdiv (Num 800) (Num 600), lit 0.1, Num 10000)\<rparr>"
  by (simp add: viewer_d_def init_def module0_def page_def Let_def loadGLBModel_def)

lemma viewer_d_controls:
  "controls viewer_d = Some \<lparr>object = 0, target = 1, enableDamping = True,
     dampingFactor = lit 0.07, internal = Vector3 (Num 0) (Num 0) (Num 0)\<rparr>"
  by (simp add: viewer_d_def init_def module0_def page_def Let_def loadGLBModel_def)

lemma viewer_d_wf: "wf_viewer viewer_d"
  unfolding viewer_d_def by (rule init_wf)

lemma damping_factor: "\<exists>k. lit (7 / 100) = Num k \<and> 1 / 16 \<le> k \<and> k \<le> 1"
proof -
  have "\<exists>k. fl (7 / 100) = Num k \<and> 1 / 2 ^ 4 \<le> k \<and> k \<le> 2 ^ 0"
    by (rule fl_between) (use roundD_inverse_two_power [of 4] roundD_two_power [of 0]
        overflowAt_pos small_lt_overflowAt [of 1] in simp_all)
  then show ?thesis by (simp add: lit_def)
qed

lemma damped_at_rest:
  "snd (damped (Vector3 (Num 0) (Num 0) (Num 0)) p (Vector3 (Num 0) (Num 0) (Num 0)))
   = (vadd p (Vector3 (Num 0) (Num 0) (Num 0)), Vector3 (Num 0) (Num 0) (Num 0))"
proof -
  from damping_factor obtain k where "lit (7 / 100) = Num k" by blast
  then show ?thesis by (simp add: damped_def Let_def vscale_def vadd_def Vector3_def)
qed

lemma damped_pending:
  "vx (snd (snd (damped (Vector3 (Num 1) (Num 0) (Num 0)) p (Vector3 (Num 0) (Num 0) (Num 0)))))
   \<noteq> Num 0"
proof -
  from damping_factor obtain k where k: "lit (7 / 100) = Num k" "1 / 16 \<le> k" "k \<le> 1"
    by blast
  have "\<exists>a. fl k = Num a \<and> 1 / 2 ^ 4 \<le> a \<and> a \<le> 2 ^ 0"
    by (rule fl_between) (use k roundD_inverse_two_power [of 4] roundD_two_power [of 0]
        overflowAt_pos small_lt_overflowAt [of 1] in simp_all)
  then obtain a where a: "fl k = Num a" "1 / 16 \<le> a" "a \<le> 1" by auto
  have "\<exists>b. fl a = Num b \<and> 1 / 2 ^ 4 \<le> b \<and> b \<le> 2 ^ 0"
    by (rule fl_between) (use a roundD_inverse_two_power [of 4] roundD_two_power [of 0]
        overflowAt_pos small_lt_overflowAt [of 1] in simp_all)
  then obtain b where b: "fl a = Num b" "1 / 16 \<le> b" by auto
  then show ?thesis
    by (simp add: damped_def Let_def vscale_def vadd_def Vector3_def k(1) a(1))
qed

lemma framed_d_eq: "frameModel damped cube viewer_d = Inr framed_d"
  and framed_d_target: "liveTarget framed_d = Some (Vector3 (Num 0) (Num 0) (Num 0))"
proof -
  let ?ctl = "\<lparr>object = 0, target = 1, enableDamping = True,
        dampingFactor = lit 0.07, internal = Vector3 (Num 0) (Num 0) (Num 0)\<rparr>"
  from placeCamera_success [OF viewer_d_wf viewer_d_camera viewer_d_controls, of cube]
  obtain s2 cam' where r: "placeCamera cube viewer_d = Inr s2" "camera s2 = Some cam'"
     "controls s2 = Some ?ctl" "wf_viewer s2"
     "heap s2 (target ?ctl) = getCenter cube"
    by blast
  from frameModel_after_place [OF r(1-4), of damped]
  obtain s' where f: "frameModel damped cube viewer_d = Inr s'"
    "liveTarget s' = Some (snd (snd (damped (internal ?ctl)
        (heap s2 (position cam')) (heap s2 (target ?ctl)))))"
    by blast
  from f(1) show e: "frameModel damped cube viewer_d = Inr framed_d" by (simp add: framed_d_def)
  with f have "s' = framed_d" by simp
  moreover have "getCenter cube = Vector3 (Num 0) (Num 0) (Num 0)" by (simp add: cube_def)
  ultimately show "liveTarget framed_d = Some (Vector3 (Num 0) (Num 0) (Num 0))"
    using f(2) r(5) damped_at_rest [of "heap s2 (position cam')"] by simp
qed

subsection \<open>Before the loader calls back\<close>

lemma init_modelGroup [simp]: "modelGroup (init e c0 (module0 el w h)) = []"
  by (simp add: init_def module0_def Let_def)

lemma animate_modelGroup [simp]: "modelGroup (animate upd s) = modelGroup s"
  by (simp add: animate_def Let_def orbitUpdate_def split: option.splits prod.splits)

lemma navigate_modelGroup [simp]: "modelGroup (navigate m s) = modelGroup s"
  by (simp add: navigate_def split: option.splits prod.splits)

lemma resize_modelGroup: "resize w h s = Inr s' \<Longrightarrow> modelGroup s' = modelGroup s"
  by (auto simp: resize_def onWindowResize_def Let_def split: option.splits)

lemma resetView_modelGroup: "resetView upd s = Inr s' \<Longrightarrow> modelGroup s' = modelGroup s"
  by (auto simp: resetView_def Let_def orbitUpdate_def split: option.splits prod.splits)

lemma handle_modelGroup: "handle upd ev s = Inr s' \<Longrightarrow> modelGroup s' = modelGroup s"
  by (cases ev) (auto simp: resize_modelGroup resetView_modelGroup)

lemma run_modelGroup: "run upd evs s = Inr s' \<Longrightarrow> modelGroup s' = modelGroup s"
proof (induction evs arbitrary: s)
  case Nil
  then show ?case by simp
next
  case (Cons ev evs)
  from Cons.prems obtain s1 where h: "handle upd ev s = Inr s1" "run upd evs s1 = Inr s'"
    by (auto split: sum.splits)
  from Cons.IH [OF h(2)] handle_modelGroup [OF h(1)] show ?case by simp
qed

lemma handle_ready: "ready s \<Longrightarrow> \<exists>s'. handle upd ev s = Inr s' \<and> ready s'"
  by (cases ev)
    (auto simp: ready_def resize_def onWindowResize_def resetView_def animate_def navigate_def
      orbitUpdate_def Let_def split: option.splits prod.splits)

lemma run_ready: "ready s \<Longrightarrow> \<exists>s'. run upd evs s = Inr s' \<and> ready s'"
proof (induction evs arbitrary: s)
  case Nil
  then show ?case by simp
next
  case (Cons ev evs)
  from handle_ready [OF Cons.prems, of upd ev]
  obtain s1 where h: "handle upd ev s = Inr s1" "ready s1" by blast
  from Cons.IH [OF h(2)] h(1) show ?case by simp
qed

lemma init_ready: "ready (init e c0 (module0 el w h))"
  by (simp add: ready_def init_def module0_def Let_def)

subsection \<open>Startup without orbit controls\<close>

lemma init_no_orbit:
  assumes "\<not> (windowOrbitControls e \<or> threeOrbitControls e \<or> threeControlsOrbitControls e)"
  shows "init e c0 (module0 el w h) =
     showError ''OrbitControls not available in this build of three.js.''
       ((module0 el w h)\<lparr>heap := (\<lambda>_. Vector3 (Num 0) (Num 0) (Num 0))
                                 (0 := Vector3 (Num 0) (Num 5) (Num 10)),
          nextAddr := 1,
          camera := Some \<lparr>position = 0, fov = Num 45, aspect = jdiv w h, near = lit 0.1,
                    far = Num 10000, projection = (Num 45, jdiv w h, lit 0.1, Num 10000)\<rparr>,
          scene := Some [''hemi'', ''dir'', ''modelGroup''],
          renderer := Some \<lparr>pixelRatio =
              jmin (case devicePixelRatio e of None \<Rightarrow> Num 1
                    | Some d \<Rightarrow> if truthy d then d else Num 1) (Num 2),
            width = w, height = h, frames = 0\<rparr>\<rparr>)"
  using assms by (simp add: init_def module0_def Let_def)

lemma animate_renders:
  assumes "controls s = None" and "renderer s = Some r" and "scene s = Some sc"
    and "camera s = Some cam"
  shows "animate upd s = s\<lparr>renderer := Some (r\<lparr>frames := frames r + 1\<rparr>)\<rparr>"
  using assms by (simp add: animate_def)

lemma animate_loop_renders:
  assumes "controls s = None" and "renderer s = Some r" and "scene s = Some sc"
    and "camera s = Some cam"
  shows "(animate upd ^^ n) s = s\<lparr>renderer := Some (r\<lparr>frames := frames r + n\<rparr>)\<rparr>"
proof (induction n)
  case 0
  show ?case using assms(2) by simp
next
  case (Suc n)
  have "animate upd (s\<lparr>renderer := Some (r\<lparr>frames := frames r + n\<rparr>)\<rparr>) =
        s\<lparr>renderer := Some (r\<lparr>frames := frames r + n\<rparr>)\<rparr>
          \<lparr>renderer := Some (r\<lparr>frames := frames r + n\<rparr>\<lparr>frames := frames (r\<lparr>frames := frames r + n\<rparr>) + 1\<rparr>)\<rparr>"
    by (rule animate_renders) (simp_all add: assms)
  with Suc show ?case by simp
qed

lemma page_without_orbit_none:
  "\<not> (windowOrbitControls page_without_orbit \<or> threeOrbitControls page_without_orbit \<or>
       threeControlsOrbitControls page_without_orbit)"
  by (simp add: page_without_orbit_def page_def)

subsection \<open>Normalising a material twice\<close>

lemma adjustMap_idem: "adjustMap T (adjustMap T t) = adjustMap T t"
  by (simp add: adjustMap_def Let_def)

lemma adjustEmissive_idem: "adjustEmissive T (adjustEmissive T t) = adjustEmissive T t"
  by (simp add: adjustEmissive_def)

lemma adjustLight_idem: "adjustLight T (adjustLight T t) = adjustLight T t"
  by (simp add: adjustLight_def)

lemma adjustMaterial_idem: "adjustMaterial T (adjustMaterial T m) = adjustMaterial T m"
  by (simp add: adjustMaterial_def Let_def adjustMap_idem adjustEmissive_idem adjustLight_idem
      split: option.splits)

lemma adjustNode_idem: "adjustNode T b (adjustNode T b m) = adjustNode T b m"
  by (cases "(T, b, m)" rule: adjustNode.cases) (simp_all add: adjustMaterial_idem)

section \<open>Auto-framing\<close>






section \<open>Material normalisation\<close>

text \<open>
  C3, at a material whose three slots hold textures with an \<open>encoding\<close> property and no
  \<open>colorSpace\<close> property, under the constants of a release of that time. The base-colour
  texture gets \<open>THREE.sRGBEncoding\<close>, which is \<open>3001\<close>, and its \<open>flipY\<close> cleared. The
  emissive and light-map textures get \<open>THREE.SRGBEncoding\<close>, a name the namespace does
  not have: their \<open>encoding\<close> becomes \<open>undefined\<close>, not the sRGB encoding value.
\<close>

theorem adjustMaterial_legacy_slots:
  "adjustMaterial THREE_legacy legacy_material =
     \<lparr>map_slot = Some \<lparr>colorSpace = None, encoding = Some (NumV 3001), flipY = BoolV False\<rparr>,
      emissiveMap = Some \<lparr>colorSpace = None, encoding = Some Undefined, flipY = BoolV True\<rparr>,
      lightMap = Some \<lparr>colorSpace = None, encoding = Some Undefined, flipY = BoolV True\<rparr>,
      needsUpdate = BoolV True\<rparr>"
  by (simp add: adjustMaterial_def adjustMap_def adjustEmissive_def adjustLight_def
      legacy_material_def legacy_texture_def THREE_legacy_def Let_def)

text \<open>
  C4. Normalising a scene graph twice gives the same graph as normalising it once: the same
  colour-space tags, encoding values and flip flags in every texture of every material.
\<close>

theorem traverse_idempotent: "traverse T (traverse T n) = traverse T n"
proof (induction n)
  case (Node mesh m cs)
  have "map (traverse T) (map (traverse T) cs) = map (traverse T) cs"
    using Node.IH by (induction cs) simp_all
  then show ?case by (simp add: adjustNode_idem)
qed

section \<open>Load outcomes\<close>

text \<open>
  C5. The loader is started once, by \<open>init\<close>, and nothing but its success callback
  adds to the model group. So whenever that callback runs, after \<open>init\<close> and any frames,
  resizes, reset clicks and steering, and the parsed asset has no scene, it logs and shows
  the error and returns without framing: the model group, the scene, the renderer, the
  camera, the controls, every vector in the store and the saved initial state are as
  before.
\<close>

theorem first_load_without_scene:
  assumes "run upd evs (init e c0 (module0 el w h)) = Inr s" and "selectModel g = None"
  shows "\<exists>s'. onLoad T upd boxOf g s = Inr s' \<and> modelGroup s' = modelGroup s \<and>
     scene s' = scene s \<and> renderer s' = renderer s \<and> camera s' = camera s \<and>
     controls s' = controls s \<and> heap s' = heap s \<and>
     initialCameraState s' = initialCameraState s \<and>
     console s' = console s @ [''Loaded file contains no scene.''] \<and>
     loadingEl s' =
       map_option (\<lambda>el. el\<lparr>textContent := ''Loaded file contains no scene.'',
                              display := ''block'', background := ''rgba(128,0,0,0.8)''\<rparr>)
         (loadingEl s) \<and>
     alerts s' =
       (if loadingEl s = None then alerts s @ [''Loaded file contains no scene.'']
        else alerts s)"
proof -
  from run_modelGroup [OF assms(1)] have "modelGroup s = []" by simp
  with assms(2) show ?thesis by (simp add: onLoad_def Let_def)
qed

theorem first_load_without_scene_witness:
  "selectModel gltf_empty = None \<and>
   (\<exists>s s'. run idle before_load viewer0 = Inr s \<and>
      onLoad THREE_legacy idle cube_of gltf_empty s = Inr s' \<and>
      modelGroup s' = modelGroup s \<and> scene s' = scene s \<and> camera s' = camera s \<and>
      heap s' = heap s \<and> initialCameraState s' = initialCameraState s \<and>
      console s' = console s @ [''Loaded file contains no scene.''])"
proof -
  from run_ready [OF init_ready, of idle before_load page "()" "Some loading0" "Num 800" "Num 600"]
  obtain s where s: "run idle before_load (init page () (module0 (Some loading0) (Num 800) (Num 600))) = Inr s"
    by blast
  from first_load_without_scene [OF s gltf_empty_no_scene, of THREE_legacy cube_of]
  obtain s' where "onLoad THREE_legacy idle cube_of gltf_empty s = Inr s'"
      "modelGroup s' = modelGroup s" "scene s' = scene s" "camera s' = camera s"
      "heap s' = heap s" "initialCameraState s' = initialCameraState s"
      "console s' = console s @ [''Loaded file contains no scene.'']"
    by blast
  with s gltf_empty_no_scene show ?thesis unfolding viewer0_def by blast
qed

text \<open>
  C10. The error callback of the loader logs and shows the error and changes nothing else:
  the model group, the scene, the renderer, the camera, the controls, every vector in the
  store and the saved initial state are as before.
\<close>

theorem onError_keeps_scene:
  "modelGroup (onError s) = modelGroup s \<and> scene (onError s) = scene s \<and>
   renderer (onError s) = renderer s \<and> camera (onError s) = camera s \<and>
   controls (onError s) = controls s \<and> heap (onError s) = heap s \<and>
   initialCameraState (onError s) = initialCameraState s \<and>
   console (onError s) =
     console s @ [''GLTF load error:'', ''Failed to load 3D model. See console for details.''] \<and>
   loadingEl (onError s) =
     map_option (\<lambda>el. el\<lparr>textContent := ''Failed to load 3D model. See console for details.'',
                            display := ''block'', background := ''rgba(128,0,0,0.8)''\<rparr>)
       (loadingEl s) \<and>
   alerts (onError s) =
     (if loadingEl s = None
      then alerts s @ [''Failed to load 3D model. See console for details.'']
      else alerts s)"
  by (simp add: onError_def)

section \<open>View state\<close>

text \<open>
  C6, as the code has it. After \<open>frameModel\<close> has returned, the saved position and
  target are copies of the live ones, in objects of their own: whatever the controls then
  write into the live position and target, the saved vectors keep their values, and they
  keep them through \<open>resetView\<close>. \<open>resetView\<close> returns; it has copied the saved
  vectors onto the live camera and target and called \<open>controls.update()\<close>, and the live
  pose it leaves is what that update makes of the saved pose.
\<close>

theorem resetView_restores:
  assumes "wf_viewer s0" and "frameModel upd box s0 = Inr s1"
  shows "\<exists>s3 p t ctl. resetView upd' (navigates ms s1) = Inr s3 \<and>
     controls (navigates ms s1) = Some ctl \<and>
     livePosition s1 = Some p \<and> liveTarget s1 = Some t \<and>
     savedPosition s1 = Some p \<and> savedTarget s1 = Some t \<and>
     savedPosition (navigates ms s1) = Some p \<and> savedTarget (navigates ms s1) = Some t \<and>
     savedPosition s3 = Some p \<and> savedTarget s3 = Some t \<and>
     livePosition s3 = Some (fst (snd (upd' (internal ctl) p t))) \<and>
     liveTarget s3 = Some (snd (snd (upd' (internal ctl) p t)))"
proof -
  from frameModel_snapshot [OF assms]
  have a: "snapshot_ok s1" "savedPosition s1 = livePosition s1" "savedTarget s1 = liveTarget s1"
    by simp_all
  from navigates_snapshot [OF a(1), of ms]
  have b: "snapshot_ok (navigates ms s1)" "savedPosition (navigates ms s1) = savedPosition s1"
    "savedTarget (navigates ms s1) = savedTarget s1"
    by simp_all
  from resetView_snapshot [OF b(1), of upd']
  obtain s3 p t ctl where r: "resetView upd' (navigates ms s1) = Inr s3"
    "controls (navigates ms s1) = Some ctl"
    "savedPosition (navigates ms s1) = Some p" "savedTarget (navigates ms s1) = Some t"
    "livePosition s3 = Some (fst (snd (upd' (internal ctl) p t)))"
    "liveTarget s3 = Some (snd (snd (upd' (internal ctl) p t)))"
    "savedPosition s3 = Some p" "savedTarget s3 = Some t"
    by (elim exE conjE)
  show ?thesis
    apply (rule exI [of _ s3], rule exI [of _ p], rule exI [of _ t], rule exI [of _ ctl])
    using r a(2,3) b(2,3) by simp
qed

theorem resetView_restores_witness:
  "wf_viewer viewer0 \<and> frameModel idle cube viewer0 = Inr framed \<and>
   (\<exists>s3 p t. resetView idle (navigates drag framed) = Inr s3 \<and>
     livePosition framed = Some p \<and> liveTarget framed = Some t \<and>
     savedPosition (navigates drag framed) = Some p \<and>
     savedTarget (navigates drag framed) = Some t \<and>
     savedPosition s3 = Some p \<and> savedTarget s3 = Some t \<and>
     livePosition s3 = Some p \<and> liveTarget s3 = Some t)"
proof -
  from resetView_restores [OF viewer0_wf framed_eq, of idle drag]
  obtain s3 p t ctl where r: "resetView idle (navigates drag framed) = Inr s3"
     "controls (navigates drag framed) = Some ctl"
     "livePosition framed = Some p" "liveTarget framed = Some t"
     "savedPosition framed = Some p" "savedTarget framed = Some t"
     "savedPosition (navigates drag framed) = Some p"
     "savedTarget (navigates drag framed) = Some t"
     "savedPosition s3 = Some p" "savedTarget s3 = Some t"
     "livePosition s3 = Some (fst (snd (idle (internal ctl) p t)))"
     "liveTarget s3 = Some (snd (snd (idle (internal ctl) p t)))"
    by (elim exE conjE)
  from r(11,12) have "livePosition s3 = Some p" "liveTarget s3 = Some t"
    by (simp_all add: idle_def)
  with viewer0_wf framed_eq r(1,3,4,7-10) show ?thesis by blast
qed

text \<open>
  C6 as stated asks that the pose after \<open>resetView\<close> is the saved one whatever
  navigation came before. With damping, which the viewer enables (line 65), a pan that is
  still pending is carried on by the update that ends \<open>resetView\<close>: the target ends away
  from the saved one.
\<close>

theorem reset_with_pending_pan:
  "savedTarget framed_d = Some (Vector3 (Num 0) (Num 0) (Num 0)) \<and>
   savedTarget (navigates pan_drag framed_d) = Some (Vector3 (Num 0) (Num 0) (Num 0)) \<and>
   map_sum id liveTarget (resetView damped (navigates pan_drag framed_d))
     \<noteq> Inr (Some (Vector3 (Num 0) (Num 0) (Num 0)))"
proof -
  from frameModel_snapshot [OF viewer_d_wf framed_d_eq]
  have a: "snapshot_ok framed_d" "savedTarget framed_d = liveTarget framed_d" by simp_all
  then obtain ctl0 where c0: "controls framed_d = Some ctl0"
    by (auto simp: snapshot_ok_def split: option.splits)
  from navigate_internal [OF c0, of "Vector3 (Num 1) (Num 0) (Num 0)"
      "Vector3 (Num 1) (Num 0) (Num 5)" "Vector3 (Num 1) (Num 0) (Num 0)"]
  obtain ctl' where n: "controls (navigates pan_drag framed_d) = Some ctl'"
      "internal ctl' = Vector3 (Num 1) (Num 0) (Num 0)"
    by (auto simp: pan_drag_def)
  from navigates_snapshot [OF a(1), of pan_drag]
  have b: "snapshot_ok (navigates pan_drag framed_d)"
    "savedTarget (navigates pan_drag framed_d) = savedTarget framed_d" by simp_all
  from resetView_snapshot [OF b(1), of damped]
  obtain s3 p t ctl where r: "resetView damped (navigates pan_drag framed_d) = Inr s3"
    "controls (navigates pan_drag framed_d) = Some ctl"
    "savedPosition (navigates pan_drag framed_d) = Some p"
    "savedTarget (navigates pan_drag framed_d) = Some t"
    "livePosition s3 = Some (fst (snd (damped (internal ctl) p t)))"
    "liveTarget s3 = Some (snd (snd (damped (internal ctl) p t)))"
    "savedPosition s3 = Some p" "savedTarget s3 = Some t"
    by (elim exE conjE)
  from r(2) n have i: "internal ctl = Vector3 (Num 1) (Num 0) (Num 0)" by simp
  from r(4) b(2) a(2) framed_d_target have t: "t = Vector3 (Num 0) (Num 0) (Num 0)" by simp
  have "vx (snd (snd (damped (internal ctl) p t))) \<noteq> vx (Vector3 (Num 0) (Num 0) (Num 0))"
    using damped_pending [of p] by (simp add: i t Vector3_def)
  then have "snd (snd (damped (internal ctl) p t)) \<noteq> Vector3 (Num 0) (Num 0) (Num 0)"
    by auto
  with r(1,6) a(2) b(2) framed_d_target show ?thesis by simp
qed

text \<open>
  C7. Without a saved initial state \<open>resetView\<close> returns normally and the state of the
  viewer, camera and controls included, is the one it was called in.
\<close>

theorem resetView_noop: "initialCameraState s = None \<Longrightarrow> resetView upd s = Inr s"
  by (simp add: resetView_def)

theorem resetView_noop_witness:
  "initialCameraState viewer0 = None \<and> resetView idle viewer0 = Inr viewer0"
  using resetView_noop [OF viewer0_initial, of idle] viewer0_initial by simp

section \<open>Resize and render loop\<close>

text \<open>
  C8. When the container is resized to \<open>w\<close> by \<open>h\<close>, the handler sets the camera's
  aspect to \<open>w / h\<close>, rebuilds the projection from it, resizes the renderer, and leaves
  \<open>fov\<close>, \<open>near\<close> and \<open>far\<close> as they were.
\<close>

theorem resize_aspect_only:
  assumes "camera s = Some cam" and "renderer s = Some r"
  shows "\<exists>s' cam'. resize w h s = Inr s' \<and> camera s' = Some cam' \<and>
     aspect cam' = jdiv w h \<and> fov cam' = fov cam \<and> near cam' = near cam \<and>
     far cam' = far cam \<and> position cam' = position cam \<and>
     projection cam' = (fov cam, jdiv w h, near cam, far cam) \<and>
     renderer s' = Some (r\<lparr>width := w, height := h\<rparr>) \<and> heap s' = heap s"
  using assms
  by (simp add: resize_def onWindowResize_def Let_def updateProjectionMatrix_def)

theorem resize_aspect_only_witness:
  "(\<exists>cam. camera viewer0 = Some cam \<and> aspect cam = jdiv (Num 800) (Num 600) \<and>
      (\<exists>s' cam'. resize (Num 400) (Num 300) viewer0 = Inr s' \<and> camera s' = Some cam' \<and>
         aspect cam' = jdiv (Num 400) (Num 300) \<and> fov cam' = fov cam \<and>
         near cam' = near cam \<and> far cam' = far cam))"
  using resize_aspect_only [OF viewer0_camera viewer0_renderer, of "Num 400" "Num 300"]
    viewer0_camera
  by auto

text \<open>
  C9, as the code has it. When no \<open>OrbitControls\<close> class is found, \<open>init\<close> logs and
  shows the error and returns: there are no controls, no load is started, no listener is
  registered. Renderer, scene and camera exist by then, so every frame of the render loop
  renders the scene; only the update of the controls is skipped.
\<close>

theorem init_without_orbit:
  assumes "\<not> (windowOrbitControls e \<or> threeOrbitControls e \<or> threeControlsOrbitControls e)"
  shows "\<exists>r. controls (init e c0 (module0 el w h)) = None \<and>
     loadStarted (init e c0 (module0 el w h)) = False \<and>
     listeners (init e c0 (module0 el w h)) = [] \<and>
     modelGroup (init e c0 (module0 el w h)) = [] \<and>
     initialCameraState (init e c0 (module0 el w h)) = None \<and>
     console (init e c0 (module0 el w h)) =
       [''OrbitControls not available in this build of three.js.''] \<and>
     loadingEl (init e c0 (module0 el w h)) =
       map_option (\<lambda>l. l\<lparr>textContent := ''OrbitControls not available in this build of three.js.'',
                            display := ''block'', background := ''rgba(128,0,0,0.8)''\<rparr>) el \<and>
     alerts (init e c0 (module0 el w h)) =
       (if el = None then [''OrbitControls not available in this build of three.js.''] else []) \<and>
     renderer (init e c0 (module0 el w h)) = Some r \<and> frames r = 0 \<and>
     (animate upd ^^ n) (init e c0 (module0 el w h)) =
       (init e c0 (module0 el w h))\<lparr>renderer := Some (r\<lparr>frames := n\<rparr>)\<rparr>"
proof -
  let ?s = "init e c0 (module0 el w h)"
  let ?r = "\<lparr>pixelRatio =
              jmin (case devicePixelRatio e of None \<Rightarrow> Num 1
                    | Some d \<Rightarrow> if truthy d then d else Num 1) (Num 2),
            width = w, height = h, frames = 0\<rparr>"
  note i = init_no_orbit [OF assms, of c0 el w h]
  have a: "controls ?s = None" "loadStarted ?s = False" "listeners ?s = []"
    "modelGroup ?s = []" "initialCameraState ?s = None"
    unfolding i by (simp_all add: module0_def)
  have b: "console ?s = [''OrbitControls not available in this build of three.js.'']"
    unfolding i by (simp add: module0_def)
  have c: "loadingEl ?s =
       map_option (\<lambda>l. l\<lparr>textContent := ''OrbitControls not available in this build of three.js.'',
                            display := ''block'', background := ''rgba(128,0,0,0.8)''\<rparr>) el"
    unfolding i by (simp add: module0_def)
  have d: "alerts ?s =
       (if el = None then [''OrbitControls not available in this build of three.js.''] else [])"
    unfolding i by (simp add: module0_def)
  have r: "renderer ?s = Some ?r" unfolding i by simp
  have sc: "scene ?s = Some [''hemi'', ''dir'', ''modelGroup'']" unfolding i by simp
  have cam: "camera ?s = Some \<lparr>position = 0, fov = Num 45, aspect = jdiv w h, near = lit 0.1,
                    far = Num 10000, projection = (Num 45, jdiv w h, lit 0.1, Num 10000)\<rparr>"
    unfolding i by simp
  from animate_loop_renders [OF a(1) r sc cam, where upd = upd and n = n]
  have l: "(animate upd ^^ n) ?s = ?s\<lparr>renderer := Some (?r\<lparr>frames := n\<rparr>)\<rparr>" by simp
  have f: "frames ?r = 0" by simp
  from a b c d r f l show ?thesis by blast
qed

theorem init_without_orbit_witness:
  "\<not> (windowOrbitControls page_without_orbit \<or> threeOrbitControls page_without_orbit \<or>
       threeControlsOrbitControls page_without_orbit) \<and>
   (\<exists>r. controls (init page_without_orbit () (module0 (Some loading0) (Num 800) (Num 600))) = None \<and>
     loadStarted (init page_without_orbit () (module0 (Some loading0) (Num 800) (Num 600))) = False \<and>
     listeners (init page_without_orbit () (module0 (Some loading0) (Num 800) (Num 600))) = [] \<and>
     renderer (init page_without_orbit () (module0 (Some loading0) (Num 800) (Num 600))) = Some r \<and>
     (animate idle ^^ 3) (init page_without_orbit () (module0 (Some loading0) (Num 800) (Num 600))) =
       (init page_without_orbit () (module0 (Some loading0) (Num 800) (Num 600)))
         \<lparr>renderer := Some (r\<lparr>frames := 3\<rparr>)\<rparr>)"
  using init_without_orbit [OF page_without_orbit_none, where ?c0.0 = "()"
      and el = "Some loading0" and w = "Num 800" and h = "Num 600" and upd = idle and n = 3] page_without_orbit_none
  by blast

text \<open>
  C9 as stated asks that the render loop does not render. After \<open>init(); animate();\<close>
  on a page without orbit controls one frame has been rendered.
\<close>

theorem startup_without_orbit_renders:
  "map_option frames
     (renderer (startup page_without_orbit () idle (module0 (Some loading0) (Num 800) (Num 600))))
   = Some 1"
  unfolding startup_def init_no_orbit [OF page_without_orbit_none]
  by (simp add: animate_def module0_def)
end
